theory Spec2Isabelle
  imports Complex_Main "HOL-Library.AList" "HOL-Library.Multiset"
begin

section \<open>Data model of \<open>LootProbabilityManager.ts\<close>\<close>

text \<open>
  The TypeScript type \<open>number\<close> is modelled by the exact reals: every arithmetic
  operation of the source is the corresponding operation on \<open>real\<close>, so rounding
  error, \<open>NaN\<close> and the infinities of IEEE doubles are outside the model.
  \<open>Math.round\<close> rounds to the nearest integer, a tie going up.
\<close>

definition js_round :: "real \<Rightarrow> real" where
  "js_round x = of_int \<lfloor>x + 1 / 2\<rfloor>"

text \<open>
  The values imported from \<open>config/config.json\<close>. The file is not part of the
  sources, so the configuration is a parameter of every function that reads it. The
  flags \<open>debug\<close> and \<open>trace\<close> only guard calls of the logger, which the model
  leaves out.
\<close>

record Config =
  maxDropRateMultiplier :: real
  dropRateIncreaseType :: string
  dropRateIncreasePerRaid :: real
  dropRateIncreasePerHour :: real
  keysAdditionalMultiplier :: real
  increasesStack :: bool

record BaseItemRequirement =
  itemId :: string
  amountRequired :: real
  secondsSinceStarted :: real
  raidsSinceStarted :: real

text \<open>
  The tagged union \<open>ItemRequirement\<close>: a quest requirement carries its
  \<open>conditionId\<close> and its \<open>foundInRaid\<close> flag in front of the shared fields.
\<close>

datatype ItemRequirement =
    quest string bool BaseItemRequirement
  | questKey BaseItemRequirement
  | hideout BaseItemRequirement

fun base :: "ItemRequirement \<Rightarrow> BaseItemRequirement" where
  "base (quest cid fir b) = b"
| "base (questKey b) = b"
| "base (hideout b) = b"


fun isQuestKey :: "ItemRequirement \<Rightarrow> bool" where
  "isQuestKey (questKey b) = True"
| "isQuestKey r = False"

text \<open>An inventory stack: \<open>item.upd?.StackObjectsCount\<close> and
  \<open>item.upd?.SpawnedInSession\<close> may both be missing, as may \<open>upd\<close> itself.\<close>

record Upd =
  StackObjectsCount :: "real option"
  SpawnedInSession :: "bool option"

record Item =
  item_id :: string
  item_tpl :: string
  upd :: "Upd option"

record ItemCount =
  foundInRaid :: real
  notFoundInRaid :: real

text \<open>The objects that the code uses as dictionaries are maps. A key is taken never
  to be the name of a property that every object inherits, such as \<open>constructor\<close>.\<close>

type_synonym Inventory = "string \<rightharpoonup> ItemCount"

text \<open>The part of the profile that is read: the stacks of
  \<open>profile.characters.pmc.Inventory.items\<close> and, for each condition id, the
  \<open>value\<close> of its entry in \<open>profile.characters.pmc.BackendCounters\<close>.\<close>

record Profile =
  items :: "Item list"
  BackendCounters :: "string \<rightharpoonup> real"

record DropRateStats =
  timeBasedDropRateMultiplier :: real
  raidBasedDropRateMultiplier :: real
  isKey :: bool

type_synonym Multipliers = "string \<rightharpoonup> DropRateStats"

section \<open>Inventory aggregation\<close>

text \<open>The body of the \<open>forEach\<close> over the inventory stacks, and the loop.\<close>

definition addItem :: "Item \<Rightarrow> Inventory \<Rightarrow> Inventory" where
  "addItem item stock =
     (let numItems = (case upd item of None \<Rightarrow> None | Some u \<Rightarrow> StackObjectsCount u);
          fir = (case upd item of None \<Rightarrow> None | Some u \<Rightarrow> SpawnedInSession u);
          count = (case numItems of None \<Rightarrow> 1 | Some n \<Rightarrow> n);
          itemRecord = (case stock (item_tpl item) of
                          None \<Rightarrow> \<lparr>foundInRaid = 0, notFoundInRaid = 0\<rparr>
                        | Some c \<Rightarrow> c)
      in if fir = Some True
         then stock(item_tpl item \<mapsto> itemRecord\<lparr>foundInRaid := foundInRaid itemRecord + count\<rparr>)
         else stock(item_tpl item \<mapsto> itemRecord\<lparr>notFoundInRaid := notFoundInRaid itemRecord + count\<rparr>))"

definition itemsInInventory :: "Item list \<Rightarrow> Inventory" where
  "itemsInInventory its = fold addItem its Map.empty"

section \<open>Consumption\<close>

text \<open>\<open>checkIfHasEnoughAndRemove\<close> mutates the count record it is given; the model
  returns the answer together with the record after the call.\<close>

definition checkIfHasEnoughAndRemove :: "ItemCount \<Rightarrow> real \<Rightarrow> bool \<Rightarrow> bool \<times> ItemCount" where
  "checkIfHasEnoughAndRemove itemCount amountNeeded fir =
     (if fir then
        (if foundInRaid itemCount \<ge> amountNeeded
         then (True, itemCount\<lparr>foundInRaid := foundInRaid itemCount - amountNeeded\<rparr>)
         else (False, itemCount))
      else
        (if notFoundInRaid itemCount \<ge> amountNeeded
         then (True, itemCount\<lparr>notFoundInRaid := notFoundInRaid itemCount - amountNeeded\<rparr>)
         else if notFoundInRaid itemCount + foundInRaid itemCount \<ge> amountNeeded
         then (let amountNeeded' = amountNeeded - notFoundInRaid itemCount;
                   itemCount' = itemCount\<lparr>notFoundInRaid := - 1\<rparr>
               in (True, itemCount'\<lparr>foundInRaid := foundInRaid itemCount' - amountNeeded'\<rparr>))
         else (False, itemCount)))"

section \<open>Ordering of the requirements\<close>

fun isFir :: "ItemRequirement \<Rightarrow> bool" where
  "isFir (quest cid fir b) = fir"
| "isFir r = False"

text \<open>The comparator handed to \<open>Array.prototype.sort\<close>.\<close>

definition compareReqs :: "Config \<Rightarrow> ItemRequirement \<Rightarrow> ItemRequirement \<Rightarrow> real" where
  "compareReqs cfg a b =
     (let aFir = isFir a; bFir = isFir b
      in if aFir \<and> \<not> bFir then - 1
         else if bFir \<and> \<not> aFir then 1
         else if dropRateIncreaseType cfg = ''raid''
              then raidsSinceStarted (base a) - raidsSinceStarted (base b)
              else secondsSinceStarted (base a) - secondsSinceStarted (base b))"

text \<open>
  \<open>Array.prototype.sort\<close> is a stable sort: an element moves in front of another
  only when the comparator puts it strictly first. It is modelled by the stable
  insertion sort, an element being inserted in front of the first one that it does
  not follow.
\<close>

fun insort_by :: "('a \<Rightarrow> 'a \<Rightarrow> real) \<Rightarrow> 'a \<Rightarrow> 'a list \<Rightarrow> 'a list" where
  "insort_by cmp x [] = [x]"
| "insort_by cmp x (y # ys) =
     (if cmp x y \<le> 0 then x # y # ys else y # insort_by cmp x ys)"

definition sort_by :: "('a \<Rightarrow> 'a \<Rightarrow> real) \<Rightarrow> 'a list \<Rightarrow> 'a list" where
  "sort_by cmp xs = foldr (insort_by cmp) xs []"

definition allItemRequirements ::
  "Config \<Rightarrow> ItemRequirement list \<Rightarrow> ItemRequirement list \<Rightarrow> ItemRequirement list" where
  "allItemRequirements cfg questItemRequirements hideoutItemRequirements =
     sort_by (compareReqs cfg) (questItemRequirements @ hideoutItemRequirements)"

section \<open>The incomplete requirements\<close>

text \<open>
  The callback of the \<open>filter\<close>: whether the requirement stays in the list, and the
  inventory counts after the call.
\<close>

definition isIncomplete ::
  "(string \<rightharpoonup> real) \<Rightarrow> Inventory \<Rightarrow> ItemRequirement \<Rightarrow> bool \<times> Inventory" where
  "isIncomplete counters stock req =
     (case stock (itemId (base req)) of
        None \<Rightarrow> (True, stock)
      | Some itemCount \<Rightarrow>
          (case req of
             questKey b \<Rightarrow>
               (let (ok, c) = checkIfHasEnoughAndRemove itemCount 1 False
                in (\<not> ok, stock(itemId b \<mapsto> c)))
           | quest cid fir b \<Rightarrow>
               (let conditionProgress = (case counters cid of None \<Rightarrow> 0 | Some v \<Rightarrow> v);
                    numMoreNeeded = amountRequired b - conditionProgress;
                    (ok, c) = checkIfHasEnoughAndRemove itemCount numMoreNeeded fir
                in (\<not> ok, stock(itemId b \<mapsto> c)))
           | hideout b \<Rightarrow>
               (let (ok, c) = checkIfHasEnoughAndRemove itemCount (amountRequired b) False
                in (\<not> ok, stock(itemId b \<mapsto> c)))))"

fun filterIncomplete ::
  "(string \<rightharpoonup> real) \<Rightarrow> Inventory \<Rightarrow> ItemRequirement list \<Rightarrow> ItemRequirement list" where
  "filterIncomplete counters stock [] = []"
| "filterIncomplete counters stock (req # reqs) =
     (let (keep, stock') = isIncomplete counters stock req
      in (if keep then [req] else []) @ filterIncomplete counters stock' reqs)"

definition incompleteItemRequirements ::
  "Config \<Rightarrow> Profile \<Rightarrow> ItemRequirement list \<Rightarrow> ItemRequirement list \<Rightarrow> ItemRequirement list" where
  "incompleteItemRequirements cfg profile questItemRequirements hideoutItemRequirements =
     filterIncomplete (BackendCounters profile) (itemsInInventory (items profile))
       (allItemRequirements cfg questItemRequirements hideoutItemRequirements)"

section \<open>Drop rate multipliers\<close>

text \<open>The body of the \<open>forEach\<close> over the incomplete requirements, and the loop.\<close>

definition addRequirement :: "Config \<Rightarrow> ItemRequirement \<Rightarrow> Multipliers \<Rightarrow> Multipliers" where
  "addRequirement cfg req m =
     (let stats = (case m (itemId (base req)) of
                     None \<Rightarrow> \<lparr>timeBasedDropRateMultiplier = 1,
                              raidBasedDropRateMultiplier = 1,
                              isKey = isQuestKey req\<rparr>
                   | Some s \<Rightarrow> s);
          hoursSinceStarted = js_round (secondsSinceStarted (base req) / 60 / 60);
          timeMult = hoursSinceStarted * dropRateIncreasePerHour cfg
                     + (if increasesStack cfg then timeBasedDropRateMultiplier stats else 1);
          stats1 = stats\<lparr>timeBasedDropRateMultiplier :=
                            max (timeBasedDropRateMultiplier stats) timeMult\<rparr>;
          raidMult = raidsSinceStarted (base req) * dropRateIncreasePerRaid cfg
                     + (if increasesStack cfg then raidBasedDropRateMultiplier stats1 else 1);
          stats2 = stats1\<lparr>raidBasedDropRateMultiplier :=
                             max (raidBasedDropRateMultiplier stats1) raidMult\<rparr>
      in m(itemId (base req) \<mapsto> stats2))"

definition itemDropRateMultipliers :: "Config \<Rightarrow> ItemRequirement list \<Rightarrow> Multipliers" where
  "itemDropRateMultipliers cfg reqs = fold (addRequirement cfg) reqs Map.empty"

text \<open>The multipliers that a call of \<open>getUpdatedLootTables\<close> computes.\<close>

definition dropRateMultipliers ::
  "Config \<Rightarrow> Profile \<Rightarrow> ItemRequirement list \<Rightarrow> ItemRequirement list \<Rightarrow> Multipliers" where
  "dropRateMultipliers cfg profile questItemRequirements hideoutItemRequirements =
     itemDropRateMultipliers cfg
       (incompleteItemRequirements cfg profile questItemRequirements hideoutItemRequirements)"

section \<open>Rewriting a probability\<close>

text \<open>The third argument of the source, \<open>loc\<close>, is only part of a log message.\<close>

definition getNewLootProbability :: "Config \<Rightarrow> Multipliers \<Rightarrow> string \<Rightarrow> real \<Rightarrow> real" where
  "getNewLootProbability cfg m tpl relativeProbability =
     (case m tpl of
        None \<Rightarrow> relativeProbability
      | Some maybeMult \<Rightarrow>
          (let p1 = (if dropRateIncreaseType cfg = ''raid''
                     then relativeProbability
                          * min (maxDropRateMultiplier cfg) (raidBasedDropRateMultiplier maybeMult)
                     else relativeProbability
                          * min (maxDropRateMultiplier cfg) (timeBasedDropRateMultiplier maybeMult));
               p2 = (if isKey maybeMult then p1 * keysAdditionalMultiplier cfg else p1)
           in js_round p2))"

section \<open>The static loot table\<close>

text \<open>
  An object of type \<open>Record<string, T>\<close> that the code walks with
  \<open>Object.entries\<close> is the list of its entries, an assignment \<open>o[k] = v\<close> being
  \<open>AList.update k v\<close>: the value of an existing key is replaced where it stands, a
  new key goes to the end. The fields of \<open>loot\<close> other than \<open>staticLoot\<close>, which the
  spread \<open>...loot\<close> copies, are the extension of the record.
\<close>

record ItemCountDistribution =
  count :: real
  relativeProbability :: real

record ItemDistribution =
  tpl :: string
  relativeProbability :: real

record IStaticLootDetails =
  itemcountDistribution :: "ItemCountDistribution list"
  itemDistribution :: "ItemDistribution list"

record ILootBase =
  staticLoot :: "(string \<times> IStaticLootDetails) list"

definition newLootDistribution :: "Config \<Rightarrow> Multipliers \<Rightarrow> ItemDistribution list \<Rightarrow> ItemDistribution list" where
  "newLootDistribution cfg m dists =
     map (\<lambda>dist. \<lparr>tpl = tpl dist,
                   relativeProbability =
                     getNewLootProbability cfg m (tpl dist)
                       (ItemDistribution.relativeProbability dist)\<rparr>) dists"

definition newContainer :: "Config \<Rightarrow> Multipliers \<Rightarrow> IStaticLootDetails \<Rightarrow> IStaticLootDetails" where
  "newContainer cfg m container =
     \<lparr>itemcountDistribution = itemcountDistribution container,
      itemDistribution = newLootDistribution cfg m (itemDistribution container)\<rparr>"

definition newStaticLoot ::
  "Config \<Rightarrow> Multipliers \<Rightarrow> (string \<times> IStaticLootDetails) list \<Rightarrow> (string \<times> IStaticLootDetails) list" where
  "newStaticLoot cfg m entries =
     fold (\<lambda>(containerId, container) acc.
             AList.update containerId (newContainer cfg m container) acc) entries []"

definition newLootTables :: "Config \<Rightarrow> Multipliers \<Rightarrow> 'a ILootBase_scheme \<Rightarrow> 'a ILootBase_scheme" where
  "newLootTables cfg m loot = loot\<lparr>staticLoot := newStaticLoot cfg m (staticLoot loot)\<rparr>"

section \<open>The loose loot of the locations\<close>

text \<open>
  The one assignment of the source to a property of an object that it did not create
  by a literal is \<open>newLooseLoot.spawnpoints = ...\<close>, on the shallow copy of
  \<open>location.looseLoot\<close>. So that the copy and the original are told apart, the loose
  loot objects live in a store, a location holds the address of its loose loot, and the
  functions take the store and return it. All other values are created by the literals
  of the source or are read only, and are plain values.
\<close>

record ComposedKey =
  key :: string

record LooseLootItemDistribution =
  composedKey :: ComposedKey
  relativeProbability :: real

text \<open>Of the template of a spawn point the code reads \<open>Items\<close> (and \<open>Id\<close>, for a
  log message).\<close>

record SpawnpointTemplate =
  template_Id :: string
  Items :: "Item list"

record Spawnpoint =
  locationId :: string
  template :: SpawnpointTemplate
  itemDistribution :: "LooseLootItemDistribution list"

record 'a ILooseLoot =
  spawnpoints :: "'a Spawnpoint_scheme list"

text \<open>A location: \<open>looseLoot\<close> is \<open>None\<close> when the object has no such key. An entry
  of \<open>locations\<close> that is \<open>undefined\<close> or \<open>null\<close> is \<open>None\<close>.\<close>

record ILocation =
  looseLoot :: "nat option"

record 'l Store =
  cells :: "nat \<Rightarrow> 'l"
  nextFree :: nat

text \<open>A fresh object with the given content: \<open>{...o}\<close>.\<close>

definition alloc :: "'l \<Rightarrow> 'l Store \<Rightarrow> nat \<times> 'l Store" where
  "alloc v st = (nextFree st, \<lparr>cells = (cells st)(nextFree st := v), nextFree = Suc (nextFree st)\<rparr>)"

definition idToTpl :: "Item list \<Rightarrow> (string \<rightharpoonup> string)" where
  "idToTpl its = fold (\<lambda>i acc. acc(item_id i \<mapsto> item_tpl i)) its Map.empty"

text \<open>The callback of the inner \<open>map\<close>; \<open>!tpl\<close> holds of a missing entry and of the
  empty string.\<close>

definition newItemDistribution ::
  "Config \<Rightarrow> Multipliers \<Rightarrow> (string \<rightharpoonup> string) \<Rightarrow> LooseLootItemDistribution \<Rightarrow> LooseLootItemDistribution" where
  "newItemDistribution cfg m ids entry =
     (let id = key (composedKey entry)
      in case ids id of
           None \<Rightarrow> entry
         | Some t \<Rightarrow>
             if t = [] then entry
             else \<lparr>composedKey = \<lparr>key = id\<rparr>,
                   relativeProbability =
                     getNewLootProbability cfg m t (relativeProbability entry)\<rparr>)"

text \<open>The callback of the outer \<open>map\<close>.\<close>

definition newSpawnpoint :: "Config \<Rightarrow> Multipliers \<Rightarrow> 'a Spawnpoint_scheme \<Rightarrow> 'a Spawnpoint_scheme" where
  "newSpawnpoint cfg m spawnPoint =
     spawnPoint\<lparr>itemDistribution :=
       map (newItemDistribution cfg m (idToTpl (Items (template spawnPoint))))
           (itemDistribution spawnPoint)\<rparr>"

text \<open>The body of the loop over the locations: the new value of the entry and the
  store after it.\<close>

definition newLocation ::
  "Config \<Rightarrow> Multipliers \<Rightarrow> 'c ILocation_scheme option \<Rightarrow> ('a, 'b) ILooseLoot_scheme Store
     \<Rightarrow> 'c ILocation_scheme option \<times> ('a, 'b) ILooseLoot_scheme Store" where
  "newLocation cfg m location st =
     (case location of
        None \<Rightarrow> (location, st)
      | Some loc \<Rightarrow>
          (case looseLoot loc of
             None \<Rightarrow> (location, st)
           | Some a \<Rightarrow>
               (let (newLooseLoot, st1) = alloc (cells st a) st;
                    st2 = st1\<lparr>cells := (cells st1)(newLooseLoot :=
                            (cells st1 newLooseLoot)\<lparr>spawnpoints :=
                               map (newSpawnpoint cfg m)
                                   (spawnpoints (cells st1 newLooseLoot))\<rparr>)\<rparr>
                in (Some (loc\<lparr>looseLoot := Some newLooseLoot\<rparr>), st2))))"

text \<open>One round of the loop over \<open>Object.entries(locations)\<close>, on the table built so
  far and the store, and the loop.\<close>

definition newLocationsStep ::
  "Config \<Rightarrow> Multipliers \<Rightarrow> string \<times> 'c ILocation_scheme option
     \<Rightarrow> (string \<times> 'c ILocation_scheme option) list \<times> ('a, 'b) ILooseLoot_scheme Store
     \<Rightarrow> (string \<times> 'c ILocation_scheme option) list \<times> ('a, 'b) ILooseLoot_scheme Store" where
  "newLocationsStep cfg m =
     (\<lambda>(locationId, location) (acc, st).
        let (location', st') = newLocation cfg m location st
        in (AList.update locationId location' acc, st'))"

definition newLocations ::
  "Config \<Rightarrow> Multipliers \<Rightarrow> (string \<times> 'c ILocation_scheme option) list
     \<Rightarrow> ('a, 'b) ILooseLoot_scheme Store
     \<Rightarrow> (string \<times> 'c ILocation_scheme option) list \<times> ('a, 'b) ILooseLoot_scheme Store" where
  "newLocations cfg m locations st = fold (newLocationsStep cfg m) locations ([], st)"

section \<open>The entry point\<close>

definition getUpdatedLootTables ::
  "Config \<Rightarrow> Profile \<Rightarrow> ItemRequirement list \<Rightarrow> ItemRequirement list \<Rightarrow> 'd ILootBase_scheme
     \<Rightarrow> (string \<times> 'c ILocation_scheme option) list \<Rightarrow> ('a, 'b) ILooseLoot_scheme Store
     \<Rightarrow> ('d ILootBase_scheme \<times> (string \<times> 'c ILocation_scheme option) list)
        \<times> ('a, 'b) ILooseLoot_scheme Store" where
  "getUpdatedLootTables cfg profile questItemRequirements hideoutItemRequirements loot locations st =
     (let m = dropRateMultipliers cfg profile questItemRequirements hideoutItemRequirements;
          newLoot = newLootTables cfg m loot;
          (newLocs, st') = newLocations cfg m locations st
      in ((newLoot, newLocs), st'))"

section \<open>Notions used to state the properties\<close>

text \<open>The amount that \<open>isIncomplete\<close> asks \<open>checkIfHasEnoughAndRemove\<close> for: one
  unit for a quest key, the amount required less the progress of the condition for a
  quest, the amount required for the hideout.\<close>

definition amountAsked :: "(string \<rightharpoonup> real) \<Rightarrow> ItemRequirement \<Rightarrow> real" where
  "amountAsked counters req =
     (case req of
        quest cid fir b \<Rightarrow> amountRequired b - (case counters cid of None \<Rightarrow> 0 | Some v \<Rightarrow> v)
      | questKey b \<Rightarrow> 1
      | hideout b \<Rightarrow> amountRequired b)"

text \<open>The counts of an item in an inventory, zero of both kinds when the item has no
  entry.\<close>

definition countsOf :: "Inventory \<Rightarrow> string \<Rightarrow> ItemCount" where
  "countsOf stock t =
     (case stock t of None \<Rightarrow> \<lparr>foundInRaid = 0, notFoundInRaid = 0\<rparr> | Some c \<Rightarrow> c)"

text \<open>The elapsed value that the configuration sorts by, and the multiplier that it
  selects.\<close>

definition elapsed :: "Config \<Rightarrow> ItemRequirement \<Rightarrow> real" where
  "elapsed cfg r = (if dropRateIncreaseType cfg = ''raid''
                    then raidsSinceStarted (base r) else secondsSinceStarted (base r))"

definition basisMultiplier :: "Config \<Rightarrow> DropRateStats \<Rightarrow> real" where
  "basisMultiplier cfg s = (if dropRateIncreaseType cfg = ''raid''
                            then raidBasedDropRateMultiplier s
                            else timeBasedDropRateMultiplier s)"

definition statsOk :: "Multipliers \<Rightarrow> bool" where
  "statsOk m = (\<forall>k s. m k = Some s \<longrightarrow>
      1 \<le> timeBasedDropRateMultiplier s \<and> 1 \<le> raidBasedDropRateMultiplier s)"

text \<open>The sum of the amounts asked for an item by the requirements of a list that
  demand found-in-raid copies (\<open>f\<close> true), or by those that do not.\<close>

definition askedTotal ::
  "(string \<rightharpoonup> real) \<Rightarrow> string \<Rightarrow> bool \<Rightarrow> ItemRequirement list \<Rightarrow> real" where
  "askedTotal counters i f reqs =
     sum_list (map (amountAsked counters)
                   (filter (\<lambda>r. itemId (base r) = i \<and> isFir r = f) reqs))"




text \<open>
  A table with its probabilities erased: two tables that are equal after that have
  the same keys, entries and order and differ at most in values of
  \<open>relativeProbability\<close> of the item distributions.
\<close>

definition eraseContainer :: "IStaticLootDetails \<Rightarrow> IStaticLootDetails" where
  "eraseContainer c =
     c\<lparr>IStaticLootDetails.itemDistribution :=
         map (\<lambda>d. d\<lparr>ItemDistribution.relativeProbability := 0\<rparr>)
             (IStaticLootDetails.itemDistribution c)\<rparr>"

definition eraseLoot :: "'a ILootBase_scheme \<Rightarrow> 'a ILootBase_scheme" where
  "eraseLoot loot = loot\<lparr>staticLoot := map (\<lambda>(k, c). (k, eraseContainer c)) (staticLoot loot)\<rparr>"

definition eraseSpawnpoint :: "'a Spawnpoint_scheme \<Rightarrow> 'a Spawnpoint_scheme" where
  "eraseSpawnpoint sp =
     sp\<lparr>itemDistribution := map (\<lambda>d. d\<lparr>relativeProbability := 0\<rparr>) (itemDistribution sp)\<rparr>"

definition eraseLooseLoot :: "('a, 'b) ILooseLoot_scheme \<Rightarrow> ('a, 'b) ILooseLoot_scheme" where
  "eraseLooseLoot ll = ll\<lparr>spawnpoints := map eraseSpawnpoint (spawnpoints ll)\<rparr>"

text \<open>What a location table holds in a store: each location with the loose loot
  object that its address stands for, probabilities erased.\<close>

definition viewLocation ::
  "('a, 'b) ILooseLoot_scheme Store \<Rightarrow> 'c ILocation_scheme option
     \<Rightarrow> ('c ILocation_scheme \<times> ('a, 'b) ILooseLoot_scheme option) option" where
  "viewLocation st location =
     map_option (\<lambda>loc. (loc\<lparr>looseLoot := None\<rparr>,
                         map_option (\<lambda>a. eraseLooseLoot (cells st a)) (looseLoot loc)))
       location"

definition viewLocations ::
  "('a, 'b) ILooseLoot_scheme Store \<Rightarrow> (string \<times> 'c ILocation_scheme option) list
     \<Rightarrow> (string \<times> ('c ILocation_scheme \<times> ('a, 'b) ILooseLoot_scheme option) option) list" where
  "viewLocations st locs = map (\<lambda>(k, l). (k, viewLocation st l)) locs"

text \<open>The addresses of a location table are allocated ones.\<close>

definition allocated :: "'l Store \<Rightarrow> 'c ILocation_scheme option \<Rightarrow> bool" where
  "allocated st location =
     (case location of
        None \<Rightarrow> True
      | Some loc \<Rightarrow> (case looseLoot loc of None \<Rightarrow> True | Some a \<Rightarrow> a < nextFree st))"

definition wfLocations :: "'l Store \<Rightarrow> (string \<times> 'c ILocation_scheme option) list \<Rightarrow> bool" where
  "wfLocations st locs = list_all (\<lambda>(k, l). allocated st l) locs"

section \<open>Concrete inputs\<close>

text \<open>A configuration on the raid basis, without stacking: a tenth per raid, a
  twentieth per hour, a ceiling of 5 and a key bonus of 1.5.\<close>

definition cfgRaid :: Config where
  "cfgRaid = \<lparr>maxDropRateMultiplier = 5, dropRateIncreaseType = ''raid'',
      dropRateIncreasePerRaid = 1 / 10, dropRateIncreasePerHour = 1 / 20,
      keysAdditionalMultiplier = 3 / 2, increasesStack = False\<rparr>"

definition stack :: "string \<Rightarrow> real \<Rightarrow> bool \<Rightarrow> Item" where
  "stack t n f = \<lparr>item_id = ''s'', item_tpl = t,
     upd = Some \<lparr>StackObjectsCount = Some n, SpawnedInSession = Some f\<rparr>\<rparr>"

text \<open>A requirement of \<open>n\<close> units of \<open>t\<close> that is \<open>raids\<close> raids and as many hours
  old.\<close>

definition need :: "string \<Rightarrow> real \<Rightarrow> real \<Rightarrow> BaseItemRequirement" where
  "need t n raids = \<lparr>itemId = t, amountRequired = n,
     secondsSinceStarted = 3600 * raids, raidsSinceStarted = raids\<rparr>"

definition noProfile :: Profile where
  "noProfile = \<lparr>items = [], BackendCounters = Map.empty\<rparr>"

text \<open>A loot table with one container, a location table with an entry without loose
  loot, an entry with loose loot and an entry that is \<open>undefined\<close>, and the store with
  the one loose loot object: a spawn point whose first entry is an instance of \<open>X\<close> and
  whose second entry has no instance in the template.\<close>

definition exLoot :: ILootBase where
  "exLoot = \<lparr>staticLoot =
      [(''crate'',
        \<lparr>itemcountDistribution = [\<lparr>count = 1, relativeProbability = 10\<rparr>],
         itemDistribution = [\<lparr>tpl = ''X'', relativeProbability = 50\<rparr>,
                             \<lparr>tpl = ''Y'', relativeProbability = 7\<rparr>]\<rparr>)]\<rparr>"

definition exLocations :: "(string \<times> ILocation option) list" where
  "exLocations = [(''base'', Some \<lparr>looseLoot = None\<rparr>),
                  (''factory'', Some \<lparr>looseLoot = Some 0\<rparr>),
                  (''none'', None)]"

definition exSpawnpoint :: "real \<Rightarrow> Spawnpoint" where
  "exSpawnpoint p =
     \<lparr>locationId = ''sp1'',
      template = \<lparr>template_Id = ''t1'',
                  Items = [\<lparr>item_id = ''i1'', item_tpl = ''X'', upd = None\<rparr>]\<rparr>,
      itemDistribution = [\<lparr>composedKey = \<lparr>key = ''i1''\<rparr>, relativeProbability = p\<rparr>,
                          \<lparr>composedKey = \<lparr>key = ''zz''\<rparr>, relativeProbability = 3\<rparr>]\<rparr>"

definition exStore :: "unit ILooseLoot Store" where
  "exStore = \<lparr>cells = (\<lambda>a. \<lparr>spawnpoints = [exSpawnpoint 50]\<rparr>), nextFree = 1\<rparr>"

section \<open>Evaluation\<close>

lemmas eval_defs = cfgRaid_def stack_def need_def noProfile_def incompleteItemRequirements_def
  allItemRequirements_def sort_by_def compareReqs_def itemsInInventory_def addItem_def isIncomplete_def
  checkIfHasEnoughAndRemove_def dropRateMultipliers_def itemDropRateMultipliers_def
  addRequirement_def getNewLootProbability_def js_round_def amountAsked_def elapsed_def
  basisMultiplier_def Let_def

lemmas loot_defs = exLoot_def exLocations_def exSpawnpoint_def exStore_def
  getUpdatedLootTables_def newLootTables_def newStaticLoot_def newContainer_def
  newLootDistribution_def newLocations_def newLocationsStep_def newLocation_def alloc_def
  newSpawnpoint_def newItemDistribution_def idToTpl_def

section \<open>Consumption of one requirement\<close>

lemma isIncomplete_alt:
  "isIncomplete counters stock r =
     (case stock (itemId (base r)) of
        None \<Rightarrow> (True, stock)
      | Some c \<Rightarrow>
          (\<not> fst (checkIfHasEnoughAndRemove c (amountAsked counters r) (isFir r)),
           stock(itemId (base r) \<mapsto>
                   snd (checkIfHasEnoughAndRemove c (amountAsked counters r) (isFir r)))))"
  by (cases r) (simp_all add: isIncomplete_def amountAsked_def split: option.split prod.split)

text \<open>
  C5. A consumption attempt that does not require found-in-raid copies: when the
  not-found-in-raid count covers the amount, that count drops by the amount and the
  answer is yes; otherwise, when both counts together cover it, the
  not-found-in-raid count becomes \<open>-1\<close>, the found-in-raid count drops by the amount
  less the former not-found-in-raid count, and the answer is yes; otherwise the answer
  is no and the record is as before.
\<close>

theorem checkIfHasEnoughAndRemove_not_fir:
  "(n \<le> notFoundInRaid c \<longrightarrow>
      checkIfHasEnoughAndRemove c n False
        = (True, c\<lparr>notFoundInRaid := notFoundInRaid c - n\<rparr>))
   \<and> (\<not> n \<le> notFoundInRaid c
        \<and> n \<le> notFoundInRaid c + foundInRaid c \<longrightarrow>
      checkIfHasEnoughAndRemove c n False
        = (True, c\<lparr>notFoundInRaid := - 1,
                    foundInRaid := foundInRaid c - (n - notFoundInRaid c)\<rparr>))
   \<and> (\<not> n \<le> notFoundInRaid c
        \<and> \<not> n \<le> notFoundInRaid c + foundInRaid c \<longrightarrow>
      checkIfHasEnoughAndRemove c n False = (False, c))"
  by (simp add: checkIfHasEnoughAndRemove_def Let_def)

text \<open>The three cases at work: three units not found in raid against a need of two;
  one unit of each kind against a need of two (scenario 4 of the specification); one
  unit of each kind against a need of three.\<close>

theorem checkIfHasEnoughAndRemove_not_fir_witness:
  "checkIfHasEnoughAndRemove \<lparr>foundInRaid = 0, notFoundInRaid = 3\<rparr> 2 False
     = (True, \<lparr>foundInRaid = 0, notFoundInRaid = 1\<rparr>)
   \<and> checkIfHasEnoughAndRemove \<lparr>foundInRaid = 1, notFoundInRaid = 1\<rparr> 2 False
     = (True, \<lparr>foundInRaid = 0, notFoundInRaid = - 1\<rparr>)
   \<and> checkIfHasEnoughAndRemove \<lparr>foundInRaid = 1, notFoundInRaid = 1\<rparr> 3 False
     = (False, \<lparr>foundInRaid = 1, notFoundInRaid = 1\<rparr>)"
  using checkIfHasEnoughAndRemove_not_fir [of 2 "\<lparr>foundInRaid = 0, notFoundInRaid = 3\<rparr>"]
        checkIfHasEnoughAndRemove_not_fir [of 2 "\<lparr>foundInRaid = 1, notFoundInRaid = 1\<rparr>"]
        checkIfHasEnoughAndRemove_not_fir [of 3 "\<lparr>foundInRaid = 1, notFoundInRaid = 1\<rparr>"]
  by simp

text \<open>
  C9. Missing optional data. A stack without \<open>upd\<close> adds one unit to the
  not-found-in-raid count of its item, the counts being zero where the item had no
  entry. A stack without a count adds one unit, to the found-in-raid count if its flag
  is set and to the not-found-in-raid count otherwise. A stack without the flag adds
  its count to the not-found-in-raid count. A quest requirement whose condition has no
  backend counter asks for the whole amount required, as with a progress of 0, whereas
  one with a counter asks for the amount required less the value of the counter. A
  requirement for an item without an inventory entry stays in the list, and the counts
  are as before.
\<close>

theorem missing_data_defaults:
  "(upd item = None \<longrightarrow>
      addItem item stock
        = stock(item_tpl item \<mapsto>
            (countsOf stock (item_tpl item))
              \<lparr>notFoundInRaid := notFoundInRaid (countsOf stock (item_tpl item)) + 1\<rparr>))
   \<and> (upd item = Some u \<and> StackObjectsCount u = None \<longrightarrow>
      addItem item stock
        = stock(item_tpl item \<mapsto>
            (if SpawnedInSession u = Some True
             then (countsOf stock (item_tpl item))
                    \<lparr>foundInRaid := foundInRaid (countsOf stock (item_tpl item)) + 1\<rparr>
             else (countsOf stock (item_tpl item))
                    \<lparr>notFoundInRaid := notFoundInRaid (countsOf stock (item_tpl item)) + 1\<rparr>)))
   \<and> (upd item = Some u \<and> SpawnedInSession u = None \<and> StackObjectsCount u = Some n \<longrightarrow>
      addItem item stock
        = stock(item_tpl item \<mapsto>
            (countsOf stock (item_tpl item))
              \<lparr>notFoundInRaid := notFoundInRaid (countsOf stock (item_tpl item)) + n\<rparr>))
   \<and> (counters cid = None \<and> stock (itemId b) = Some c \<longrightarrow>
      isIncomplete counters stock (quest cid fir b)
        = (\<not> fst (checkIfHasEnoughAndRemove c (amountRequired b) fir),
           stock(itemId b \<mapsto> snd (checkIfHasEnoughAndRemove c (amountRequired b) fir))))
   \<and> (counters cid = Some v \<and> stock (itemId b) = Some c \<longrightarrow>
      isIncomplete counters stock (quest cid fir b)
        = (\<not> fst (checkIfHasEnoughAndRemove c (amountRequired b - v) fir),
           stock(itemId b \<mapsto> snd (checkIfHasEnoughAndRemove c (amountRequired b - v) fir))))
   \<and> (stock (itemId (base r)) = None \<longrightarrow> isIncomplete counters stock r = (True, stock))"
proof (intro conjI impI)
  assume "upd item = None"
  then show "addItem item stock
        = stock(item_tpl item \<mapsto>
            (countsOf stock (item_tpl item))
              \<lparr>notFoundInRaid := notFoundInRaid (countsOf stock (item_tpl item)) + 1\<rparr>)"
    by (simp add: addItem_def countsOf_def Let_def)
next
  assume "upd item = Some u \<and> StackObjectsCount u = None"
  then show "addItem item stock
        = stock(item_tpl item \<mapsto>
            (if SpawnedInSession u = Some True
             then (countsOf stock (item_tpl item))
                    \<lparr>foundInRaid := foundInRaid (countsOf stock (item_tpl item)) + 1\<rparr>
             else (countsOf stock (item_tpl item))
                    \<lparr>notFoundInRaid := notFoundInRaid (countsOf stock (item_tpl item)) + 1\<rparr>))"
    by (simp add: addItem_def countsOf_def Let_def)
next
  assume "upd item = Some u \<and> SpawnedInSession u = None \<and> StackObjectsCount u = Some n"
  then show "addItem item stock
        = stock(item_tpl item \<mapsto>
            (countsOf stock (item_tpl item))
              \<lparr>notFoundInRaid := notFoundInRaid (countsOf stock (item_tpl item)) + n\<rparr>)"
    by (simp add: addItem_def countsOf_def Let_def)
next
  assume "counters cid = None \<and> stock (itemId b) = Some c"
  then show "isIncomplete counters stock (quest cid fir b)
        = (\<not> fst (checkIfHasEnoughAndRemove c (amountRequired b) fir),
           stock(itemId b \<mapsto> snd (checkIfHasEnoughAndRemove c (amountRequired b) fir)))"
    by (simp add: isIncomplete_alt amountAsked_def)
next
  assume "counters cid = Some v \<and> stock (itemId b) = Some c"
  then show "isIncomplete counters stock (quest cid fir b)
        = (\<not> fst (checkIfHasEnoughAndRemove c (amountRequired b - v) fir),
           stock(itemId b \<mapsto> snd (checkIfHasEnoughAndRemove c (amountRequired b - v) fir)))"
    by (simp add: isIncomplete_alt amountAsked_def)
next
  assume "stock (itemId (base r)) = None"
  then show "isIncomplete counters stock r = (True, stock)"
    by (simp add: isIncomplete_alt)
qed

text \<open>Three stacks of \<open>Z\<close>: one without \<open>upd\<close>, one found in raid without a count,
  one of four units without the flag. Together they make one unit found in raid and
  five not. Then a quest requirement for two units of \<open>Z\<close>, against three units not
  found in raid: without a counter it takes two units, with a counter at one it takes
  one unit, and without an inventory entry it stays in the list.\<close>

theorem missing_data_defaults_witness:
  "addItem \<lparr>item_id = ''s1'', item_tpl = ''Z'', upd = None\<rparr> Map.empty
     = [''Z'' \<mapsto> \<lparr>foundInRaid = 0, notFoundInRaid = 1\<rparr>]
   \<and> addItem \<lparr>item_id = ''s2'', item_tpl = ''Z'',
               upd = Some \<lparr>StackObjectsCount = None, SpawnedInSession = Some True\<rparr>\<rparr>
        [''Z'' \<mapsto> \<lparr>foundInRaid = 0, notFoundInRaid = 1\<rparr>]
     = [''Z'' \<mapsto> \<lparr>foundInRaid = 1, notFoundInRaid = 1\<rparr>]
   \<and> addItem \<lparr>item_id = ''s3'', item_tpl = ''Z'',
               upd = Some \<lparr>StackObjectsCount = Some 4, SpawnedInSession = None\<rparr>\<rparr>
        [''Z'' \<mapsto> \<lparr>foundInRaid = 1, notFoundInRaid = 1\<rparr>]
     = [''Z'' \<mapsto> \<lparr>foundInRaid = 1, notFoundInRaid = 5\<rparr>]
   \<and> itemsInInventory
        [\<lparr>item_id = ''s1'', item_tpl = ''Z'', upd = None\<rparr>,
         \<lparr>item_id = ''s2'', item_tpl = ''Z'',
          upd = Some \<lparr>StackObjectsCount = None, SpawnedInSession = Some True\<rparr>\<rparr>,
         \<lparr>item_id = ''s3'', item_tpl = ''Z'',
          upd = Some \<lparr>StackObjectsCount = Some 4, SpawnedInSession = None\<rparr>\<rparr>] ''Z''
     = Some \<lparr>foundInRaid = 1, notFoundInRaid = 5\<rparr>
   \<and> isIncomplete Map.empty [''Z'' \<mapsto> \<lparr>foundInRaid = 0, notFoundInRaid = 3\<rparr>]
       (quest ''c1'' False (need ''Z'' 2 1))
     = (False, [''Z'' \<mapsto> \<lparr>foundInRaid = 0, notFoundInRaid = 1\<rparr>])
   \<and> isIncomplete [''c1'' \<mapsto> 1] [''Z'' \<mapsto> \<lparr>foundInRaid = 0, notFoundInRaid = 3\<rparr>]
       (quest ''c1'' False (need ''Z'' 2 1))
     = (False, [''Z'' \<mapsto> \<lparr>foundInRaid = 0, notFoundInRaid = 2\<rparr>])
   \<and> isIncomplete Map.empty Map.empty (quest ''c1'' False (need ''Z'' 2 1))
     = (True, Map.empty)"
  using missing_data_defaults [where item = "\<lparr>item_id = ''s1'', item_tpl = ''Z'', upd = None\<rparr>"
          and stock = Map.empty and counters = Map.empty and cid = "''c1''"
          and b = "need ''Z'' 2 1" and fir = False
          and r = "quest ''c1'' False (need ''Z'' 2 1)"]
        missing_data_defaults [where item = "\<lparr>item_id = ''s2'', item_tpl = ''Z'',
               upd = Some \<lparr>StackObjectsCount = None, SpawnedInSession = Some True\<rparr>\<rparr>"
          and u = "\<lparr>StackObjectsCount = None, SpawnedInSession = Some True\<rparr>"
          and stock = "[''Z'' \<mapsto> \<lparr>foundInRaid = 0, notFoundInRaid = 1\<rparr>]"]
        missing_data_defaults [where item = "\<lparr>item_id = ''s3'', item_tpl = ''Z'',
               upd = Some \<lparr>StackObjectsCount = Some 4, SpawnedInSession = None\<rparr>\<rparr>"
          and u = "\<lparr>StackObjectsCount = Some 4, SpawnedInSession = None\<rparr>" and n = 4
          and stock = "[''Z'' \<mapsto> \<lparr>foundInRaid = 1, notFoundInRaid = 1\<rparr>]"]
        missing_data_defaults [where counters = Map.empty and cid = "''c1''"
          and stock = "[''Z'' \<mapsto> \<lparr>foundInRaid = 0, notFoundInRaid = 3\<rparr>]"
          and c = "\<lparr>foundInRaid = 0, notFoundInRaid = 3\<rparr>"
          and fir = False and b = "need ''Z'' 2 1"]
        missing_data_defaults [where counters = "[''c1'' \<mapsto> 1]" and cid = "''c1''" and v = 1
          and stock = "[''Z'' \<mapsto> \<lparr>foundInRaid = 0, notFoundInRaid = 3\<rparr>]"
          and c = "\<lparr>foundInRaid = 0, notFoundInRaid = 3\<rparr>"
          and fir = False and b = "need ''Z'' 2 1"]
  by (simp add: eval_defs countsOf_def)

text \<open>A quest requirement for an item with an inventory entry, when the count that
  the attempt consults (the found-in-raid count if the requirement demands such
  copies, the not-found-in-raid count otherwise) is at least the amount still needed:
  the requirement leaves the list and that count grows by the progress less the amount
  required.\<close>

lemma progress_reached_when_covered:
  assumes "stock (itemId b) = Some c"
    and "amountRequired b - (case counters cid of None \<Rightarrow> 0 | Some v \<Rightarrow> v)
           \<le> (if fir then foundInRaid c else notFoundInRaid c)"
  shows "isIncomplete counters stock (quest cid fir b) =
     (False, stock(itemId b \<mapsto>
        (if fir
         then c\<lparr>foundInRaid := foundInRaid c
                   + ((case counters cid of None \<Rightarrow> 0 | Some v \<Rightarrow> v) - amountRequired b)\<rparr>
         else c\<lparr>notFoundInRaid := notFoundInRaid c
                   + ((case counters cid of None \<Rightarrow> 0 | Some v \<Rightarrow> v) - amountRequired b)\<rparr>)))"
proof -
  have eq: "\<And>a r x::real. a - (r - x) = a + (x - r)" by simp
  show ?thesis
    using assms
    by (auto simp: isIncomplete_def checkIfHasEnoughAndRemove_def eq split: option.splits)
qed

text \<open>
  C10 does not hold of the code: a quest requirement whose counter has reached the
  amount required, for an item that the player holds, can stay in the incomplete
  list, its count not touched. The player holds one unit of \<open>Z\<close> found in raid and
  one not found in raid; the hideout needs two units, and a quest needs one unit with
  its counter already at one. The hideout requirement is the younger one, takes both
  units and leaves the not-found-in-raid count at \<open>-1\<close>; the quest requirement, which
  needs nothing more, then finds \<open>-1 < 0\<close> and \<open>-1 + 0 < 0\<close> and stays in the list,
  the counts being as before. With the same two units both not found in raid, the
  hideout requirement leaves the count at 0 and the quest requirement leaves the
  list.
\<close>

theorem progress_reached_after_sentinel:
  "incompleteItemRequirements cfgRaid
     \<lparr>items = [stack ''Z'' 1 False, stack ''Z'' 1 True], BackendCounters = [''c1'' \<mapsto> 1]\<rparr>
     [quest ''c1'' False (need ''Z'' 1 2)] [hideout (need ''Z'' 2 1)]
   = [quest ''c1'' False (need ''Z'' 1 2)]
   \<and> isIncomplete [''c1'' \<mapsto> 1] [''Z'' \<mapsto> \<lparr>foundInRaid = 0, notFoundInRaid = - 1\<rparr>]
        (quest ''c1'' False (need ''Z'' 1 2))
   = (True, [''Z'' \<mapsto> \<lparr>foundInRaid = 0, notFoundInRaid = - 1\<rparr>])
   \<and> incompleteItemRequirements cfgRaid
     \<lparr>items = [stack ''Z'' 2 False], BackendCounters = [''c1'' \<mapsto> 1]\<rparr>
     [quest ''c1'' False (need ''Z'' 1 2)] [hideout (need ''Z'' 2 1)]
   = []"
  by (simp add: eval_defs)

section \<open>The multipliers never fall below one\<close>

lemma statsOk_addRequirement: "statsOk m \<Longrightarrow> statsOk (addRequirement cfg r m)"
  unfolding statsOk_def addRequirement_def Let_def
  by (auto simp: le_max_iff_disj split: option.splits)

lemma statsOk_fold: "statsOk m \<Longrightarrow> statsOk (fold (addRequirement cfg) rs m)"
  by (induction rs arbitrary: m) (simp_all add: statsOk_addRequirement)

lemma statsOk_itemDropRateMultipliers: "statsOk (itemDropRateMultipliers cfg rs)"
  unfolding itemDropRateMultipliers_def by (rule statsOk_fold) (simp add: statsOk_def)

lemma js_round_nonneg: "0 \<le> x \<Longrightarrow> 0 \<le> js_round x"
  by (simp add: js_round_def)

section \<open>The rewritten probability\<close>

text \<open>
  C1 (as amended). With the multipliers that a call computes: an item without an
  entry keeps its probability as it is, unrounded; an item with an entry gets the
  rounded product of its probability, the smaller of \<open>maxDropRateMultiplier\<close> and the
  multiplier of the configured basis, and \<open>keysAdditionalMultiplier\<close> if the entry is
  one of a key; and the result is not negative when the probability,
  \<open>maxDropRateMultiplier\<close> and \<open>keysAdditionalMultiplier\<close> are not negative.
\<close>

theorem getNewLootProbability_value:
  "(dropRateMultipliers cfg profile qs hs t = None \<longrightarrow>
      getNewLootProbability cfg (dropRateMultipliers cfg profile qs hs) t p = p)
   \<and> (\<forall>s. dropRateMultipliers cfg profile qs hs t = Some s \<longrightarrow>
      getNewLootProbability cfg (dropRateMultipliers cfg profile qs hs) t p =
        js_round (p * min (maxDropRateMultiplier cfg) (basisMultiplier cfg s)
                    * (if isKey s then keysAdditionalMultiplier cfg else 1)))
   \<and> (0 \<le> p \<and> 0 \<le> maxDropRateMultiplier cfg \<and> 0 \<le> keysAdditionalMultiplier cfg \<longrightarrow>
      0 \<le> getNewLootProbability cfg (dropRateMultipliers cfg profile qs hs) t p)"
proof (intro conjI allI impI)
  assume "dropRateMultipliers cfg profile qs hs t = None"
  then show "getNewLootProbability cfg (dropRateMultipliers cfg profile qs hs) t p = p"
    by (simp add: getNewLootProbability_def)
next
  fix s assume "dropRateMultipliers cfg profile qs hs t = Some s"
  then show "getNewLootProbability cfg (dropRateMultipliers cfg profile qs hs) t p =
        js_round (p * min (maxDropRateMultiplier cfg) (basisMultiplier cfg s)
                    * (if isKey s then keysAdditionalMultiplier cfg else 1))"
    by (simp add: getNewLootProbability_def basisMultiplier_def Let_def)
next
  assume h: "0 \<le> p \<and> 0 \<le> maxDropRateMultiplier cfg \<and> 0 \<le> keysAdditionalMultiplier cfg"
  show "0 \<le> getNewLootProbability cfg (dropRateMultipliers cfg profile qs hs) t p"
  proof (cases "dropRateMultipliers cfg profile qs hs t")
    case None
    with h show ?thesis by (simp add: getNewLootProbability_def)
  next
    case (Some s)
    have "statsOk (dropRateMultipliers cfg profile qs hs)"
      unfolding dropRateMultipliers_def by (rule statsOk_itemDropRateMultipliers)
    with Some have "1 \<le> timeBasedDropRateMultiplier s" "1 \<le> raidBasedDropRateMultiplier s"
      by (auto simp: statsOk_def)
    then have "0 \<le> min (maxDropRateMultiplier cfg) (timeBasedDropRateMultiplier s)"
      "0 \<le> min (maxDropRateMultiplier cfg) (raidBasedDropRateMultiplier s)"
      using h by auto
    with h Some show ?thesis
      by (auto simp: getNewLootProbability_def Let_def
               intro!: js_round_nonneg mult_nonneg_nonneg)
  qed
qed

text \<open>Scenarios 1 and 2 of the specification: nothing in the inventory and one
  requirement for \<open>X\<close> that is ten raids old. A probability of 50 becomes 100 for a
  hideout requirement and 150 for a quest key; the probability of another item stays
  at 50.\<close>

theorem getNewLootProbability_value_witness:
  "getNewLootProbability cfgRaid
      (dropRateMultipliers cfgRaid noProfile [] [hideout (need ''X'' 1 10)]) ''X'' 50 = 100
   \<and> getNewLootProbability cfgRaid
      (dropRateMultipliers cfgRaid noProfile [questKey (need ''X'' 1 10)] []) ''X'' 50 = 150
   \<and> getNewLootProbability cfgRaid
      (dropRateMultipliers cfgRaid noProfile [] [hideout (need ''X'' 1 10)]) ''Y'' 50 = 50
   \<and> 0 \<le> getNewLootProbability cfgRaid
      (dropRateMultipliers cfgRaid noProfile [] [hideout (need ''X'' 1 10)]) ''X'' 50"
  using getNewLootProbability_value [of cfgRaid noProfile "[]" "[hideout (need ''X'' 1 10)]"
          "''X''" 50]
        getNewLootProbability_value [of cfgRaid noProfile "[questKey (need ''X'' 1 10)]" "[]"
          "''X''" 50]
        getNewLootProbability_value [of cfgRaid noProfile "[]" "[hideout (need ''X'' 1 10)]"
          "''Y''" 50]
  by (simp add: eval_defs)

text \<open>
  C1 as stated fails in its last part: a probability of \<open>-3\<close> of an item without an
  entry is returned as it is; with a ceiling of \<open>-1\<close> the probability 50 of an item
  with an entry becomes \<open>-50\<close>; and with a key bonus of \<open>-1\<close> the probability 50 of a
  key becomes \<open>-100\<close>.
\<close>

theorem getNewLootProbability_negative_counterexample:
  "getNewLootProbability cfgRaid
      (dropRateMultipliers cfgRaid noProfile [] [hideout (need ''X'' 1 10)]) ''Y'' (- 3) = - 3
   \<and> getNewLootProbability (cfgRaid\<lparr>maxDropRateMultiplier := - 1\<rparr>)
      (dropRateMultipliers (cfgRaid\<lparr>maxDropRateMultiplier := - 1\<rparr>) noProfile []
         [hideout (need ''X'' 1 10)]) ''X'' 50 = - 50
   \<and> getNewLootProbability (cfgRaid\<lparr>keysAdditionalMultiplier := - 1\<rparr>)
      (dropRateMultipliers (cfgRaid\<lparr>keysAdditionalMultiplier := - 1\<rparr>) noProfile
         [questKey (need ''X'' 1 10)] []) ''X'' 50 = - 100"
  by (simp add: eval_defs)

text \<open>
  C3 (as amended). The multiplier of the configured basis is clamped: the factor
  that multiplies the probability first is at most \<open>maxDropRateMultiplier\<close>, and for an
  entry that is not one of a key the result is the rounded product of the probability
  and that factor. For a key the product is multiplied by \<open>keysAdditionalMultiplier\<close>
  after the clamp.
\<close>

theorem getNewLootProbability_clamp:
  "min (maxDropRateMultiplier cfg) (basisMultiplier cfg s) \<le> maxDropRateMultiplier cfg
   \<and> (m t = Some s \<and> \<not> isKey s \<longrightarrow>
        getNewLootProbability cfg m t p
          = js_round (p * min (maxDropRateMultiplier cfg) (basisMultiplier cfg s)))
   \<and> (m t = Some s \<and> isKey s \<longrightarrow>
        getNewLootProbability cfg m t p
          = js_round (p * min (maxDropRateMultiplier cfg) (basisMultiplier cfg s)
                        * keysAdditionalMultiplier cfg))"
  by (simp add: getNewLootProbability_def basisMultiplier_def Let_def)

text \<open>An entry with a raid multiplier of 11 is clamped to 5: the probability 50
  becomes 250 without the key flag and 375 with it.\<close>

theorem getNewLootProbability_clamp_witness:
  "getNewLootProbability cfgRaid
      [''X'' \<mapsto> \<lparr>timeBasedDropRateMultiplier = 6, raidBasedDropRateMultiplier = 11,
                  isKey = False\<rparr>] ''X'' 50 = 250
   \<and> getNewLootProbability cfgRaid
      [''X'' \<mapsto> \<lparr>timeBasedDropRateMultiplier = 6, raidBasedDropRateMultiplier = 11,
                  isKey = True\<rparr>] ''X'' 50 = 375"
  using getNewLootProbability_clamp [of cfgRaid
          "\<lparr>timeBasedDropRateMultiplier = 6, raidBasedDropRateMultiplier = 11, isKey = False\<rparr>"
          "[''X'' \<mapsto> \<lparr>timeBasedDropRateMultiplier = 6, raidBasedDropRateMultiplier = 11,
                       isKey = False\<rparr>]" "''X''" 50]
        getNewLootProbability_clamp [of cfgRaid
          "\<lparr>timeBasedDropRateMultiplier = 6, raidBasedDropRateMultiplier = 11, isKey = True\<rparr>"
          "[''X'' \<mapsto> \<lparr>timeBasedDropRateMultiplier = 6, raidBasedDropRateMultiplier = 11,
                       isKey = True\<rparr>]" "''X''" 50]
  by (simp add: eval_defs)

text \<open>
  C3 as stated fails for a key. A quest key requirement that is a hundred raids old
  has a raid multiplier of 11, which is clamped to the ceiling of 5, and the key bonus
  of 1.5 comes on top: the probability 50 becomes 375, more than five times 50.
\<close>

theorem getNewLootProbability_key_counterexample:
  "getNewLootProbability cfgRaid
      (dropRateMultipliers cfgRaid noProfile [questKey (need ''K'' 1 100)] []) ''K'' 50 = 375
   \<and> 50 * maxDropRateMultiplier cfgRaid < 375"
  by (simp add: eval_defs)

section \<open>The key flag\<close>

lemma addRequirement_isKey_kept:
  "m i = Some s \<Longrightarrow> \<exists>s'. addRequirement cfg r m i = Some s' \<and> isKey s' = isKey s"
  by (auto simp: addRequirement_def Let_def)

lemma fold_addRequirement_isKey_kept:
  "m i = Some s \<Longrightarrow> \<exists>s'. fold (addRequirement cfg) rs m i = Some s' \<and> isKey s' = isKey s"
proof (induction rs arbitrary: m s)
  case Nil
  then show ?case by simp
next
  case (Cons r rs)
  from addRequirement_isKey_kept [of m i s cfg r] Cons.prems
  obtain s1 where s1: "addRequirement cfg r m i = Some s1" "isKey s1 = isKey s" by blast
  from Cons.IH [of "addRequirement cfg r m" s1] s1 show ?case by simp
qed

lemma addRequirement_other:
  "itemId (base r) \<noteq> i \<Longrightarrow> addRequirement cfg r m i = m i"
  by (simp add: addRequirement_def Let_def)

lemma fold_addRequirement_isKey_first:
  "m i = None \<Longrightarrow> filter (\<lambda>r. itemId (base r) = i) rs = r # rest \<Longrightarrow>
   \<exists>s. fold (addRequirement cfg) rs m i = Some s \<and> isKey s = isQuestKey r"
proof (induction rs arbitrary: m)
  case Nil
  then show ?case by simp
next
  case (Cons x rs)
  show ?case
  proof (cases "itemId (base x) = i")
    case True
    with Cons.prems have x: "x = r" by simp
    have "\<exists>s. addRequirement cfg r m i = Some s \<and> isKey s = isQuestKey r"
      using True x Cons.prems(1) by (simp add: addRequirement_def Let_def)
    then obtain s where s: "addRequirement cfg r m i = Some s" "isKey s = isQuestKey r" by blast
    from fold_addRequirement_isKey_kept [of "addRequirement cfg r m" i s cfg rs] s x
    show ?thesis by simp
  next
    case False
    with Cons.prems have "filter (\<lambda>r. itemId (base r) = i) rs = r # rest" by simp
    moreover have "addRequirement cfg x m i = None"
      using False Cons.prems(1) by (simp add: addRequirement_other)
    ultimately show ?thesis using Cons.IH [of "addRequirement cfg x m"] by simp
  qed
qed

text \<open>The flag of an item is that of the first requirement for the item in the
  list.\<close>

lemma isKey_is_first:
  "filter (\<lambda>r. itemId (base r) = i) rs = r # rest \<Longrightarrow>
   \<exists>s. itemDropRateMultipliers cfg rs i = Some s \<and> isKey s = isQuestKey r"
  unfolding itemDropRateMultipliers_def by (rule fold_addRequirement_isKey_first) simp_all

text \<open>
  C4 does not hold of the code, which sets \<open>isKey\<close> only when it creates the record
  of an item, from the first incomplete requirement for that item. Nothing in the
  inventory, a quest requirement for \<open>K\<close> that is one raid old and a quest key
  requirement for \<open>K\<close> that is two raids old: both are incomplete and the record of
  \<open>K\<close> has \<open>isKey = false\<close>. With the ages exchanged the flag is \<open>true\<close>.
\<close>

theorem isKey_first_requirement_only:
  "incompleteItemRequirements cfgRaid noProfile
      [quest ''c1'' False (need ''K'' 1 1), questKey (need ''K'' 1 2)] []
     = [quest ''c1'' False (need ''K'' 1 1), questKey (need ''K'' 1 2)]
   \<and> map_option isKey (dropRateMultipliers cfgRaid noProfile
        [quest ''c1'' False (need ''K'' 1 1), questKey (need ''K'' 1 2)] [] ''K'') = Some False
   \<and> map_option isKey (dropRateMultipliers cfgRaid noProfile
        [quest ''c1'' False (need ''K'' 1 2), questKey (need ''K'' 1 1)] [] ''K'') = Some True"
  by (simp add: eval_defs)

section \<open>The order of consumption\<close>

lemma compareReqs_le_iff:
  "compareReqs cfg a b \<le> 0 \<longleftrightarrow>
     (isFir b \<longrightarrow> isFir a) \<and> (isFir a = isFir b \<longrightarrow> elapsed cfg a \<le> elapsed cfg b)"
  by (auto simp: compareReqs_def elapsed_def Let_def)

lemma set_insort_by: "set (insort_by cmp x xs) = insert x (set xs)"
  by (induction xs) auto

lemma mset_insort_by: "mset (insort_by cmp x xs) = add_mset x (mset xs)"
  by (induction xs) auto

lemma mset_sort_by: "mset (sort_by cmp xs) = mset xs"
  unfolding sort_by_def by (induction xs) (simp_all add: mset_insort_by)

lemma sorted_insort_by:
  assumes total: "\<And>a b. cmp a b \<le> 0 \<or> cmp b a \<le> 0"
    and trans: "\<And>a b c. cmp a b \<le> 0 \<Longrightarrow> cmp b c \<le> 0 \<Longrightarrow> cmp a c \<le> 0"
  shows "sorted_wrt (\<lambda>a b. cmp a b \<le> 0) xs \<Longrightarrow> sorted_wrt (\<lambda>a b. cmp a b \<le> 0) (insort_by cmp x xs)"
proof (induction xs)
  case Nil
  then show ?case by simp
next
  case (Cons y ys)
  show ?case
  proof (cases "cmp x y \<le> 0")
    case True
    with Cons.prems show ?thesis by (auto intro: trans)
  next
    case False
    then have "cmp y x \<le> 0" using total [of x y] by simp
    with False Cons show ?thesis by (auto simp: set_insort_by)
  qed
qed

lemma sorted_sort_by:
  assumes total: "\<And>a b. cmp a b \<le> 0 \<or> cmp b a \<le> 0"
    and trans: "\<And>a b c. cmp a b \<le> 0 \<Longrightarrow> cmp b c \<le> 0 \<Longrightarrow> cmp a c \<le> 0"
  shows "sorted_wrt (\<lambda>a b. cmp a b \<le> 0) (sort_by cmp xs)"
  unfolding sort_by_def
  by (induction xs) (simp_all add: sorted_insort_by [OF total trans])

lemma filter_insort_by:
  assumes "\<And>y. P x \<Longrightarrow> P y \<Longrightarrow> cmp x y \<le> 0"
  shows "filter P (insort_by cmp x xs) = (if P x then x # filter P xs else filter P xs)"
  using assms by (induction xs) auto

lemma filter_sort_by:
  assumes "\<And>x y. P x \<Longrightarrow> P y \<Longrightarrow> cmp x y \<le> 0"
  shows "filter P (sort_by cmp xs) = filter P xs"
  unfolding sort_by_def
  by (induction xs) (simp_all add: filter_insort_by assms)

text \<open>
  C6. The list that is consumed is the concatenation of the two requirement lists,
  sorted once: it has the same elements; a requirement that demands found-in-raid
  copies never comes after one that does not, and of two requirements of the same
  kind the later one has the greater or equal elapsed value, which is
  \<open>raidsSinceStarted\<close> on the raid basis and \<open>secondsSinceStarted\<close> otherwise; and the
  requirements of one kind and one elapsed value keep the order that they had.
\<close>

theorem allItemRequirements_sorted:
  "mset (allItemRequirements cfg qs hs) = mset (qs @ hs)
   \<and> sorted_wrt (\<lambda>a b. (isFir b \<longrightarrow> isFir a)
                        \<and> (isFir a = isFir b \<longrightarrow> elapsed cfg a \<le> elapsed cfg b))
        (allItemRequirements cfg qs hs)
   \<and> (\<forall>f e. filter (\<lambda>r. isFir r = f \<and> elapsed cfg r = e) (allItemRequirements cfg qs hs)
            = filter (\<lambda>r. isFir r = f \<and> elapsed cfg r = e) (qs @ hs))"
proof (intro conjI allI)
  show "mset (allItemRequirements cfg qs hs) = mset (qs @ hs)"
    unfolding allItemRequirements_def by (rule mset_sort_by)
next
  have "sorted_wrt (\<lambda>a b. compareReqs cfg a b \<le> 0) (allItemRequirements cfg qs hs)"
    unfolding allItemRequirements_def
  proof (rule sorted_sort_by)
    show "compareReqs cfg a b \<le> 0 \<or> compareReqs cfg b a \<le> 0" for a b
      unfolding compareReqs_le_iff by auto
    show "compareReqs cfg a b \<le> 0 \<Longrightarrow> compareReqs cfg b c \<le> 0 \<Longrightarrow> compareReqs cfg a c \<le> 0"
      for a b c
      unfolding compareReqs_le_iff by auto
  qed
  then show "sorted_wrt (\<lambda>a b. (isFir b \<longrightarrow> isFir a)
                             \<and> (isFir a = isFir b \<longrightarrow> elapsed cfg a \<le> elapsed cfg b))
        (allItemRequirements cfg qs hs)"
    unfolding compareReqs_le_iff .
next
  fix f e
  show "filter (\<lambda>r. isFir r = f \<and> elapsed cfg r = e) (allItemRequirements cfg qs hs)
            = filter (\<lambda>r. isFir r = f \<and> elapsed cfg r = e) (qs @ hs)"
    unfolding allItemRequirements_def
    by (rule filter_sort_by) (simp add: compareReqs_le_iff)
qed

text \<open>Two quest requirements, the second of which demands found-in-raid copies, and
  two hideout requirements: the found-in-raid one comes first although it is the
  oldest, and of the two requirements that are five raids old the quest requirement
  stays in front.\<close>

theorem allItemRequirements_sorted_witness:
  "allItemRequirements cfgRaid
      [quest ''c1'' False (need ''A'' 1 5), quest ''c2'' True (need ''B'' 1 9)]
      [hideout (need ''C'' 1 5), hideout (need ''D'' 1 2)]
     = [quest ''c2'' True (need ''B'' 1 9), hideout (need ''D'' 1 2),
        quest ''c1'' False (need ''A'' 1 5), hideout (need ''C'' 1 5)]"
  using allItemRequirements_sorted [of cfgRaid
          "[quest ''c1'' False (need ''A'' 1 5), quest ''c2'' True (need ''B'' 1 9)]"
          "[hideout (need ''C'' 1 5), hideout (need ''D'' 1 2)]"]
  by (simp add: eval_defs)

section \<open>Stock that covers the requirements\<close>

lemma askedTotal_Cons:
  "askedTotal counters i f (r # rs) =
     (if itemId (base r) = i \<and> isFir r = f then amountAsked counters r else 0)
     + askedTotal counters i f rs"
  by (simp add: askedTotal_def)

lemma askedTotal_nonneg:
  "\<forall>r\<in>set rs. itemId (base r) = i \<longrightarrow> 0 \<le> amountAsked counters r \<Longrightarrow> 0 \<le> askedTotal counters i f rs"
  unfolding askedTotal_def by (rule sum_list_nonneg) auto

lemma isIncomplete_other:
  "itemId (base r) \<noteq> i \<Longrightarrow> snd (isIncomplete counters stock r) i = stock i"
  by (simp add: isIncomplete_alt split: option.split)

lemma filterIncomplete_covered:
  assumes "stock i = Some c"
    and "\<forall>r\<in>set rs. itemId (base r) = i \<longrightarrow> 0 \<le> amountAsked counters r"
    and "askedTotal counters i True rs \<le> foundInRaid c"
    and "askedTotal counters i False rs \<le> notFoundInRaid c"
  shows "\<forall>r\<in>set (filterIncomplete counters stock rs). itemId (base r) \<noteq> i"
  using assms
proof (induction rs arbitrary: stock c)
  case Nil
  then show ?case by simp
next
  case (Cons r rs)
  have nn: "0 \<le> askedTotal counters i True rs" "0 \<le> askedTotal counters i False rs"
    using Cons.prems(2) by (auto intro!: askedTotal_nonneg)
  obtain keep stock' where step: "isIncomplete counters stock r = (keep, stock')"
    by (cases "isIncomplete counters stock r")
  show ?case
  proof (cases "itemId (base r) = i")
    case False
    from step have "stock' i = stock i"
      using isIncomplete_other [OF False, of counters stock] by simp
    with Cons.prems have a: "stock' i = Some c" by simp
    have b: "askedTotal counters i True rs \<le> foundInRaid c"
       "askedTotal counters i False rs \<le> notFoundInRaid c"
      using Cons.prems(3,4) False by (simp_all add: askedTotal_Cons)
    have "\<forall>r\<in>set (filterIncomplete counters stock' rs). itemId (base r) \<noteq> i"
      using Cons.IH [of stock' c] a b Cons.prems(2) by simp
    with False step show ?thesis by auto
  next
    case True
    have asked: "0 \<le> amountAsked counters r" using Cons.prems(2) True by simp
    show ?thesis
    proof (cases "isFir r")
      case fir: True
      have le: "amountAsked counters r + askedTotal counters i True rs \<le> foundInRaid c"
        and le2: "askedTotal counters i False rs \<le> notFoundInRaid c"
        using Cons.prems(3,4) True fir by (simp_all add: askedTotal_Cons)
      define c' where "c' = c\<lparr>foundInRaid := foundInRaid c - amountAsked counters r\<rparr>"
      have "isIncomplete counters stock r = (False, stock(i \<mapsto> c'))"
        using Cons.prems(1) True fir le nn
        by (simp add: isIncomplete_alt checkIfHasEnoughAndRemove_def c'_def)
      with step have k: "keep = False" "stock' = stock(i \<mapsto> c')" by simp_all
      have a: "stock' i = Some c'" using k by simp
      have b: "askedTotal counters i True rs \<le> foundInRaid c'"
        "askedTotal counters i False rs \<le> notFoundInRaid c'"
        using le le2 by (simp_all add: c'_def)
      have "\<forall>r\<in>set (filterIncomplete counters stock' rs). itemId (base r) \<noteq> i"
        using Cons.IH [of stock' c'] a b Cons.prems(2) by simp
      with step k show ?thesis by auto
    next
      case nfir: False
      have le: "amountAsked counters r + askedTotal counters i False rs \<le> notFoundInRaid c"
        and le2: "askedTotal counters i True rs \<le> foundInRaid c"
        using Cons.prems(3,4) True nfir by (simp_all add: askedTotal_Cons)
      define c' where "c' = c\<lparr>notFoundInRaid := notFoundInRaid c - amountAsked counters r\<rparr>"
      have "isIncomplete counters stock r = (False, stock(i \<mapsto> c'))"
        using Cons.prems(1) True nfir le nn
        by (simp add: isIncomplete_alt checkIfHasEnoughAndRemove_def c'_def)
      with step have k: "keep = False" "stock' = stock(i \<mapsto> c')" by simp_all
      have a: "stock' i = Some c'" using k by simp
      have b: "askedTotal counters i True rs \<le> foundInRaid c'"
        "askedTotal counters i False rs \<le> notFoundInRaid c'"
        using le le2 by (simp_all add: c'_def)
      have "\<forall>r\<in>set (filterIncomplete counters stock' rs). itemId (base r) \<noteq> i"
        using Cons.IH [of stock' c'] a b Cons.prems(2) by simp
      with step k show ?thesis by auto
    qed
  qed
qed

text \<open>
  C2 (as amended). An item has an inventory entry, no requirement for it asks for a
  negative amount, its found-in-raid count is the sum of the amounts asked by the
  requirements for it that demand found-in-raid copies, and its not-found-in-raid
  count is the sum of the amounts asked by the others (in sorted order): then no
  requirement for the item is in the incomplete list.
\<close>

theorem exact_stock_completes:
  assumes "itemsInInventory (items profile) i = Some c"
    and "\<forall>r\<in>set (allItemRequirements cfg qs hs).
           itemId (base r) = i \<longrightarrow> 0 \<le> amountAsked (BackendCounters profile) r"
    and "foundInRaid c
           = askedTotal (BackendCounters profile) i True (allItemRequirements cfg qs hs)"
    and "notFoundInRaid c
           = askedTotal (BackendCounters profile) i False (allItemRequirements cfg qs hs)"
  shows "\<forall>r\<in>set (incompleteItemRequirements cfg profile qs hs). itemId (base r) \<noteq> i"
  unfolding incompleteItemRequirements_def
  using assms by (intro filterIncomplete_covered [where c = c]) simp_all

text \<open>Two units of \<open>X\<close> found in raid and three not: a quest that demands two
  found-in-raid units and a hideout requirement for three units are both complete; the
  requirement for \<open>Y\<close>, of which there is none, is all that is left.\<close>

theorem exact_stock_completes_witness:
  "itemsInInventory (items \<lparr>items = [stack ''X'' 2 True, stack ''X'' 3 False],
                             BackendCounters = Map.empty\<rparr>) ''X''
     = Some \<lparr>foundInRaid = 2, notFoundInRaid = 3\<rparr>
   \<and> incompleteItemRequirements cfgRaid
        \<lparr>items = [stack ''X'' 2 True, stack ''X'' 3 False], BackendCounters = Map.empty\<rparr>
        [quest ''c1'' True (need ''X'' 2 4)]
        [hideout (need ''X'' 3 1), hideout (need ''Y'' 1 1)]
     = [hideout (need ''Y'' 1 1)]"
  using exact_stock_completes [of
          "\<lparr>items = [stack ''X'' 2 True, stack ''X'' 3 False], BackendCounters = Map.empty\<rparr>"
          "''X''" "\<lparr>foundInRaid = 2, notFoundInRaid = 3\<rparr>" cfgRaid
          "[quest ''c1'' True (need ''X'' 2 4)]"
          "[hideout (need ''X'' 3 1), hideout (need ''Y'' 1 1)]"]
  by (simp add: eval_defs askedTotal_def)

text \<open>
  C2 as stated fails. First input: the player holds two units of \<open>X\<close>, none of them
  found in raid, and the one requirement for \<open>X\<close> is a quest that demands two
  found-in-raid units; the counts add up to the amount asked and the requirement is
  incomplete. Second input: two units of \<open>W\<close> found in raid and one not, and two
  hideout requirements, for two units and for one; the first takes the one unit not
  found in raid and one found in raid and leaves the counts at \<open>-1\<close> and \<open>1\<close>, and the
  second then finds \<open>-1 < 1\<close> and \<open>-1 + 1 < 1\<close> and is incomplete.
\<close>

theorem exact_stock_counterexample:
  "itemsInInventory [stack ''X'' 2 False] ''X'' = Some \<lparr>foundInRaid = 0, notFoundInRaid = 2\<rparr>
   \<and> sum_list (map (amountAsked Map.empty)
        (allItemRequirements cfgRaid [quest ''c1'' True (need ''X'' 2 1)] [])) = 2
   \<and> incompleteItemRequirements cfgRaid
        \<lparr>items = [stack ''X'' 2 False], BackendCounters = Map.empty\<rparr>
        [quest ''c1'' True (need ''X'' 2 1)] []
     = [quest ''c1'' True (need ''X'' 2 1)]
   \<and> itemsInInventory [stack ''W'' 2 True, stack ''W'' 1 False] ''W''
     = Some \<lparr>foundInRaid = 2, notFoundInRaid = 1\<rparr>
   \<and> sum_list (map (amountAsked Map.empty)
        (allItemRequirements cfgRaid [] [hideout (need ''W'' 2 1), hideout (need ''W'' 1 2)])) = 3
   \<and> incompleteItemRequirements cfgRaid
        \<lparr>items = [stack ''W'' 2 True, stack ''W'' 1 False], BackendCounters = Map.empty\<rparr>
        [] [hideout (need ''W'' 2 1), hideout (need ''W'' 1 2)]
     = [hideout (need ''W'' 1 2)]"
  by (simp add: eval_defs)

text \<open>The other two conditions are needed as well. Without an inventory entry, a
  quest requirement whose counter has reached the amount required asks for nothing and
  is incomplete. With one unit in stock and requirements that ask for \<open>2\<close> and for
  \<open>-1\<close> units, the first one is incomplete.\<close>

lemma exact_stock_other_conditions:
  "incompleteItemRequirements cfgRaid \<lparr>items = [], BackendCounters = [''c1'' \<mapsto> 1]\<rparr>
        [quest ''c1'' False (need ''X'' 1 1)] []
     = [quest ''c1'' False (need ''X'' 1 1)]
   \<and> incompleteItemRequirements cfgRaid
        \<lparr>items = [stack ''X'' 1 False], BackendCounters = [''c2'' \<mapsto> 1]\<rparr>
        [quest ''c1'' False (need ''X'' 2 1), quest ''c2'' False (need ''X'' 0 2)] []
     = [quest ''c1'' False (need ''X'' 2 1)]"
  by (simp add: eval_defs)

section \<open>Monotonicity of the multipliers\<close>











section \<open>The rewritten tables\<close>

lemma update_fresh: "k \<notin> fst ` set al \<Longrightarrow> AList.update k v al = al @ [(k, v)]"
  by (induction al) auto

lemma fold_update_fresh:
  "distinct (map fst xs) \<Longrightarrow> fst ` set xs \<inter> fst ` set acc = {} \<Longrightarrow>
   fold (\<lambda>(k, c) acc. AList.update k (f c) acc) xs acc = acc @ map (\<lambda>(k, c). (k, f c)) xs"
proof (induction xs arbitrary: acc)
  case Nil
  then show ?case by simp
next
  case (Cons x xs)
  obtain k c where x: "x = (k, c)" by (cases x)
  have fresh: "k \<notin> fst ` set acc" using Cons.prems(2) x by auto
  have d: "distinct (map fst xs)" and k: "k \<notin> fst ` set xs" using Cons.prems(1) x by auto
  have disj: "fst ` set xs \<inter> fst ` set (acc @ [(k, f c)]) = {}"
    using Cons.prems(2) k by auto
  show ?case
    using Cons.IH [OF d disj] by (simp add: x update_fresh [OF fresh])
qed

lemma newStaticLoot_map:
  "distinct (map fst entries) \<Longrightarrow>
   newStaticLoot cfg m entries = map (\<lambda>(k, c). (k, newContainer cfg m c)) entries"
  unfolding newStaticLoot_def
  using fold_update_fresh [of entries "[]" "newContainer cfg m"] by simp

lemma eraseContainer_newContainer: "eraseContainer (newContainer cfg m c) = eraseContainer c"
  by (simp add: eraseContainer_def newContainer_def newLootDistribution_def comp_def)

lemma eraseLoot_newLootTables:
  "distinct (map fst (staticLoot loot)) \<Longrightarrow> eraseLoot (newLootTables cfg m loot) = eraseLoot loot"
  by (simp add: eraseLoot_def newLootTables_def newStaticLoot_map comp_def case_prod_beta
                eraseContainer_newContainer)

lemma erase_newItemDistribution:
  "(newItemDistribution cfg m ids d)\<lparr>relativeProbability := 0\<rparr> = d\<lparr>relativeProbability := 0\<rparr>"
  by (simp add: newItemDistribution_def Let_def split: option.split)

lemma eraseSpawnpoint_newSpawnpoint: "eraseSpawnpoint (newSpawnpoint cfg m sp) = eraseSpawnpoint sp"
  by (simp add: eraseSpawnpoint_def newSpawnpoint_def comp_def erase_newItemDistribution)

lemma newLocation_nextFree:
  "nextFree st \<le> nextFree (snd (newLocation cfg m l st))"
  by (simp add: newLocation_def alloc_def Let_def split: option.split)

lemma newLocation_frame:
  "a < nextFree st \<Longrightarrow> cells (snd (newLocation cfg m l st)) a = cells st a"
  by (simp add: newLocation_def alloc_def Let_def split: option.split)

lemma newLocation_view:
  "viewLocation (snd (newLocation cfg m l st)) (fst (newLocation cfg m l st)) = viewLocation st l"
  by (simp add: newLocation_def alloc_def Let_def viewLocation_def eraseLooseLoot_def comp_def
                eraseSpawnpoint_newSpawnpoint split: option.split)

lemma newLocation_allocated:
  "allocated st l \<Longrightarrow> allocated (snd (newLocation cfg m l st)) (fst (newLocation cfg m l st))"
  by (simp add: newLocation_def alloc_def Let_def allocated_def split: option.split)

lemma allocated_mono: "allocated st l \<Longrightarrow> nextFree st \<le> nextFree st' \<Longrightarrow> allocated st' l"
  by (auto simp: allocated_def split: option.splits)

lemma wfLocations_mono:
  "wfLocations st locs \<Longrightarrow> nextFree st \<le> nextFree st' \<Longrightarrow> wfLocations st' locs"
  by (auto simp: wfLocations_def list_all_iff intro: allocated_mono)

lemma viewLocation_frame:
  "allocated st l \<Longrightarrow> \<forall>a<nextFree st. cells st' a = cells st a \<Longrightarrow>
   viewLocation st' l = viewLocation st l"
  by (auto simp: allocated_def viewLocation_def split: option.splits)

lemma viewLocations_frame:
  "wfLocations st locs \<Longrightarrow> \<forall>a<nextFree st. cells st' a = cells st a \<Longrightarrow>
   viewLocations st' locs = viewLocations st locs"
proof (induction locs)
  case Nil
  then show ?case by (simp add: viewLocations_def)
next
  case (Cons x locs)
  obtain k l where x: "x = (k, l)" by (cases x)
  from Cons.prems(1) have "allocated st l" and "wfLocations st locs"
    by (simp_all add: wfLocations_def x)
  with Cons show ?case
    using viewLocation_frame [of st l st'] by (simp add: viewLocations_def x)
qed

lemma fold_newLocation:
  assumes "distinct (map fst locs)" and "fst ` set locs \<inter> fst ` set acc = {}"
    and "wfLocations st locs" and "wfLocations st acc"
    and "fold (newLocationsStep cfg m) locs (acc, st) = (acc', st')"
  shows "viewLocations st' acc' = viewLocations st acc @ viewLocations st locs
     \<and> (\<forall>a<nextFree st. cells st' a = cells st a)
     \<and> nextFree st \<le> nextFree st'
     \<and> wfLocations st' acc'"
  using assms
proof (induction locs arbitrary: acc st)
  case Nil
  then show ?case by (simp add: viewLocations_def)
next
  case (Cons x locs)
  obtain k l where x: "x = (k, l)" by (cases x)
  define l1 where "l1 = fst (newLocation cfg m l st)"
  define st1 where "st1 = snd (newLocation cfg m l st)"
  have fresh: "k \<notin> fst ` set acc" using Cons.prems(2) x by auto
  have step: "newLocationsStep cfg m x (acc, st) = (acc @ [(k, l1)], st1)"
    by (simp add: newLocationsStep_def x l1_def st1_def case_prod_beta update_fresh [OF fresh])
  have alloc_l: "allocated st l" and wf_rest: "wfLocations st locs"
    using Cons.prems(3) x by (simp_all add: wfLocations_def)
  have mono: "nextFree st \<le> nextFree st1" unfolding st1_def by (rule newLocation_nextFree)
  have frame: "\<forall>a<nextFree st. cells st1 a = cells st a"
    unfolding st1_def by (simp add: newLocation_frame)
  have d: "distinct (map fst locs)" and k: "k \<notin> fst ` set locs" using Cons.prems(1) x by auto
  have disj: "fst ` set locs \<inter> fst ` set (acc @ [(k, l1)]) = {}"
    using Cons.prems(2) k by auto
  have wf1: "wfLocations st1 locs" using wf_rest mono by (rule wfLocations_mono)
  have "allocated st1 l1" unfolding st1_def l1_def using alloc_l by (rule newLocation_allocated)
  then have wf2: "wfLocations st1 (acc @ [(k, l1)])"
    using wfLocations_mono [OF Cons.prems(4) mono] by (simp add: wfLocations_def)
  have run: "fold (newLocationsStep cfg m) locs (acc @ [(k, l1)], st1) = (acc', st')"
    using Cons.prems(5) step by simp
  note IH = Cons.IH [OF d disj wf1 wf2 run]
  have v1: "viewLocations st1 (acc @ [(k, l1)]) = viewLocations st acc @ [(k, viewLocation st l)]"
    using viewLocations_frame [OF Cons.prems(4) frame] newLocation_view [of cfg m l st]
    by (simp add: viewLocations_def l1_def st1_def)
  have v2: "viewLocations st1 locs = viewLocations st locs"
    using wf_rest frame by (rule viewLocations_frame)
  have "viewLocations st' acc' = viewLocations st acc @ viewLocations st (x # locs)"
    using IH v1 v2 by (simp add: viewLocations_def x)
  moreover have "\<forall>a<nextFree st. cells st' a = cells st a"
    using IH frame mono by auto
  moreover have "nextFree st \<le> nextFree st'" using IH mono by simp
  ultimately show ?case using IH by simp
qed

lemma newLocations_shape:
  assumes "distinct (map fst locs)" and "wfLocations st locs"
    and "newLocations cfg m locs st = (locs', st')"
  shows "viewLocations st' locs' = viewLocations st locs
     \<and> (\<forall>a<nextFree st. cells st' a = cells st a)"
proof -
  have "fold (newLocationsStep cfg m) locs ([], st) = (locs', st')"
    using assms(3) by (simp add: newLocations_def)
  from fold_newLocation [OF assms(1) _ assms(2) _ this]
  show ?thesis by (simp add: wfLocations_def viewLocations_def)
qed

text \<open>
  C8. The keys of an object are distinct, and the addresses in the location table
  are allocated ones. Then the new loot table and the old one are equal once the
  probabilities of their item distributions are erased: same other fields, same
  containers in the same order, same \<open>itemcountDistribution\<close>, same entries in the
  same order. So are the new location table, read in the store after the call, and
  the old one, read in the store before it: same locations, same spawn points, same
  entries. And every object that was allocated before the call is after the call
  what it was before.
\<close>

theorem getUpdatedLootTables_shape:
  assumes "distinct (map fst (staticLoot loot))" and "distinct (map fst locations)"
    and "wfLocations st locations"
    and "getUpdatedLootTables cfg profile qs hs loot locations st = ((newLoot, newLocs), st')"
  shows "eraseLoot newLoot = eraseLoot loot
     \<and> viewLocations st' newLocs = viewLocations st locations
     \<and> (\<forall>a<nextFree st. cells st' a = cells st a)"
proof -
  define m where "m = dropRateMultipliers cfg profile qs hs"
  obtain locs1 st1 where n: "newLocations cfg m locations st = (locs1, st1)"
    by (cases "newLocations cfg m locations st")
  have "getUpdatedLootTables cfg profile qs hs loot locations st
      = ((newLootTables cfg m loot, locs1), st1)"
    by (simp add: getUpdatedLootTables_def Let_def m_def [symmetric] n)
  with assms(4) have eqs: "newLoot = newLootTables cfg m loot" "newLocs = locs1" "st' = st1"
    by simp_all
  have a: "eraseLoot newLoot = eraseLoot loot"
    unfolding eqs using assms(1) by (rule eraseLoot_newLootTables)
  have b: "viewLocations st' newLocs = viewLocations st locations
     \<and> (\<forall>a<nextFree st. cells st' a = cells st a)"
    unfolding eqs using assms(2,3) n by (rule newLocations_shape)
  from a b show ?thesis by blast
qed

text \<open>One incomplete hideout requirement for \<open>X\<close>, ten raids old: the
  probability of \<open>X\<close> in the container and at the spawn point goes from 50 to 100, the
  loose loot of the location is a new object at address 1, and the object at address 0
  is as it was.\<close>

theorem getUpdatedLootTables_shape_witness:
  "fst (getUpdatedLootTables cfgRaid noProfile [] [hideout (need ''X'' 1 10)]
          exLoot exLocations exStore)
     = (\<lparr>staticLoot =
          [(''crate'',
            \<lparr>itemcountDistribution = [\<lparr>count = 1, relativeProbability = 10\<rparr>],
             itemDistribution = [\<lparr>tpl = ''X'', relativeProbability = 100\<rparr>,
                                 \<lparr>tpl = ''Y'', relativeProbability = 7\<rparr>]\<rparr>)]\<rparr>,
        [(''base'', Some \<lparr>looseLoot = None\<rparr>),
         (''factory'', Some \<lparr>looseLoot = Some 1\<rparr>),
         (''none'', None)])
   \<and> cells (snd (getUpdatedLootTables cfgRaid noProfile [] [hideout (need ''X'' 1 10)]
          exLoot exLocations exStore)) 1 = \<lparr>spawnpoints = [exSpawnpoint 100]\<rparr>
   \<and> cells (snd (getUpdatedLootTables cfgRaid noProfile [] [hideout (need ''X'' 1 10)]
          exLoot exLocations exStore)) 0 = \<lparr>spawnpoints = [exSpawnpoint 50]\<rparr>"
  using getUpdatedLootTables_shape [of exLoot exLocations exStore cfgRaid noProfile "[]" "[hideout (need ''X'' 1 10)]"
      "fst (fst (getUpdatedLootTables cfgRaid noProfile [] [hideout (need ''X'' 1 10)]
          exLoot exLocations exStore))"
      "snd (fst (getUpdatedLootTables cfgRaid noProfile [] [hideout (need ''X'' 1 10)]
          exLoot exLocations exStore))"
      "snd (getUpdatedLootTables cfgRaid noProfile [] [hideout (need ''X'' 1 10)]
          exLoot exLocations exStore)"]
  by (simp add: eval_defs loot_defs)

end
